theory Spec2Isabelle
  imports Complex_Main "HOL-Library.Monad_Syntax"
begin

section \<open>Travel guide page script: smooth scrolling and the auto-hiding header\<close>

text \<open>
  The development embeds two handlers of \<^verbatim>\<open>script.js\<close>: the click handler that
  \<^verbatim>\<open>initSmoothScroll\<close> attaches to every link \<^verbatim>\<open>a[href^="#"]\<close> (with its
  nested functions \<^verbatim>\<open>animation\<close> and \<^verbatim>\<open>ease\<close>), and
  \<^verbatim>\<open>headerScrollHandler\<close> of \<^verbatim>\<open>initFixedHeaderEffect\<close>.

  A JavaScript Number is an IEEE 754 binary64. The easing formula is embedded twice:
  \<open>ease\<close> is the formula in exact real arithmetic, and \<open>ease64\<close> is the same
  sequence of operations with the result of each one rounded to binary64. Everywhere
  else a Number is a \<^typ>\<open>real\<close>.
\<close>

subsection \<open>The easing formula\<close>

text \<open>
  \<^verbatim>\<open>
  function ease(t, b, c, d) {
      t /= d / 2;
      if (t < 1) return c / 2 * t * t + b;
      t--;
      return -c / 2 * (t * (t - 2) - 1) + b;
  }
  \<close>
  The two assignments to \<^verbatim>\<open>t\<close> become the bindings \<open>t1\<close> and \<open>t2\<close>. The only
  caller passes \<open>d = 1000\<close>; for \<open>d = 0\<close> JavaScript yields NaN or an infinity,
  which no real number stands for (HOL's \<open>x / 0\<close> is \<open>0\<close>), so every statement
  about \<open>ease\<close> assumes \<open>d > 0\<close>. First the formula in exact arithmetic.
\<close>

definition ease :: "real \<Rightarrow> real \<Rightarrow> real \<Rightarrow> real \<Rightarrow> real" where
  "ease t b c d =
     (let t1 = t / (d / 2) in
      if t1 < 1 then c / 2 * t1 * t1 + b
      else (let t2 = t1 - 1 in - c / 2 * (t2 * (t2 - 2) - 1) + b))"

text \<open>
  A device of the proofs, not a function of the script: the curve of \<open>ease\<close> for
  \<open>b = 0\<close> and \<open>c = 1\<close>, as a function of the scaled time \<open>u = t / (d / 2)\<close>.
  Lemma \<open>ease_as_unit\<close> below connects the two.
\<close>

definition ease_unit :: "real \<Rightarrow> real" where
  "ease_unit u = (if u < 1 then u * u / 2 else (1 - (u - 1) * (u - 3)) / 2)"

subsection \<open>The easing formula in binary64\<close>

text \<open>
  Rounding to the nearest integer, a tie going to the even one.
\<close>

definition round_half_even :: "real \<Rightarrow> int" where
  "round_half_even q =
     (let f = \<lfloor>q\<rfloor> in
      if q - of_int f < 1 / 2 then f
      else if 1 / 2 < q - of_int f then f + 1
      else if even f then f else f + 1)"

text \<open>
  The exponent of a real \<open>x > 0\<close>: the \<open>e\<close> with \<open>2 powi e \<le> x < 2 powi (e + 1)\<close>, found by doubling
  or halving \<open>x\<close> until it lies in \<open>[1, 2)\<close>.
\<close>

function binade_of :: "real \<Rightarrow> int" where
  "binade_of x =
     (if x \<le> 0 then 0
      else if x < 1 then binade_of (2 * x) - 1
      else if 2 \<le> x then binade_of (x / 2) + 1
      else 0)"
  by pat_completeness auto
termination
proof (relation "measure (\<lambda>x. nat \<bar>\<lfloor>log 2 x\<rfloor>\<bar>)")
  show "wf (measure (\<lambda>x. nat \<bar>\<lfloor>log 2 x\<rfloor>\<bar>))" by simp
next
  fix x :: real
  assume "\<not> x \<le> 0" "x < 1"
  then have "log 2 (2 * x) = 1 + log 2 x" "log 2 x < 0"
    by (simp_all add: log_mult)
  then have "\<lfloor>log 2 (2 * x)\<rfloor> = 1 + \<lfloor>log 2 x\<rfloor>" "\<lfloor>log 2 x\<rfloor> < 0"
    by (simp_all add: floor_less_iff)
  then show "(2 * x, x) \<in> measure (\<lambda>x. nat \<bar>\<lfloor>log 2 x\<rfloor>\<bar>)"
    unfolding in_measure by linarith
next
  fix x :: real
  assume "\<not> x \<le> 0" "\<not> x < 1" "2 \<le> x"
  then have "log 2 (x / 2) = log 2 x - 1" "1 \<le> log 2 x"
    by (simp_all add: log_divide le_log_iff)
  then have "\<lfloor>log 2 (x / 2)\<rfloor> = \<lfloor>log 2 x\<rfloor> - 1" "1 \<le> \<lfloor>log 2 x\<rfloor>"
    by (simp_all add: le_floor_iff)
  then show "(x / 2, x) \<in> measure (\<lambda>x. nat \<bar>\<lfloor>log 2 x\<rfloor>\<bar>)"
    unfolding in_measure by linarith
qed

declare binade_of.simps [simp del]

definition binade :: "real \<Rightarrow> int" where
  "binade x = binade_of \<bar>x\<bar>"

text \<open>
  Rounding to a significand of 53 bits: the nearest multiple of \<open>2 powi (e - 52)\<close>, ties to the
  even significand, with no bound on the exponent.
\<close>

definition round53 :: "real \<Rightarrow> real" where
  "round53 x =
     (if x = 0 then 0
      else of_int (round_half_even (x / 2 powi (binade x - 52))) * 2 powi (binade x - 52))"

text \<open>
  Rounding to binary64, where the result is zero or a normal number. A non-zero value
  below \<open>2 powi (- 1022)\<close> in magnitude (where binary64 is subnormal or underflows) and a
  value that rounds to \<open>2 powi 1024\<close> or beyond (an infinity in binary64) are not
  modelled: the result is \<open>None\<close>. Zero has no sign here; JavaScript's \<^verbatim>\<open>-0\<close>
  equals \<^verbatim>\<open>0\<close>.
\<close>

definition round64 :: "real \<Rightarrow> real option" where
  "round64 x =
     (if x = 0 then Some 0
      else if \<bar>x\<bar> < 2 powi (- 1022) then None
      else if 2 powi 1024 \<le> \<bar>round53 x\<bar> then None
      else Some (round53 x))"

text \<open>
  The arithmetic operators of a Number. Division by zero gives an infinity or NaN in
  JavaScript: \<open>None\<close>.
\<close>

definition fadd :: "real \<Rightarrow> real \<Rightarrow> real option" where
  "fadd x y = round64 (x + y)"

definition fsub :: "real \<Rightarrow> real \<Rightarrow> real option" where
  "fsub x y = round64 (x - y)"

definition fmul :: "real \<Rightarrow> real \<Rightarrow> real option" where
  "fmul x y = round64 (x * y)"

definition fdiv :: "real \<Rightarrow> real \<Rightarrow> real option" where
  "fdiv x y = (if y = 0 then None else round64 (x / y))"

text \<open>
  \<^verbatim>\<open>ease\<close> as the script computes it, operation by operation in the order of
  evaluation: \<^verbatim>\<open>c / 2 * t * t + b\<close> is \<^verbatim>\<open>((c / 2) * t) * t + b\<close>, and
  \<^verbatim>\<open>-c / 2 * (t * (t - 2) - 1) + b\<close> is
  \<^verbatim>\<open>((-c) / 2) * ((t * (t - 2)) - 1) + b\<close>; negation is exact.
\<close>

definition ease64 :: "real \<Rightarrow> real \<Rightarrow> real \<Rightarrow> real \<Rightarrow> real option" where
  "ease64 t b c d =
     do {
       h \<leftarrow> fdiv d 2;
       t1 \<leftarrow> fdiv t h;
       if t1 < 1 then
         do {
           a \<leftarrow> fdiv c 2;
           p \<leftarrow> fmul a t1;
           q \<leftarrow> fmul p t1;
           fadd q b
         }
       else
         do {
           t2 \<leftarrow> fsub t1 1;
           a \<leftarrow> fdiv (- c) 2;
           s \<leftarrow> fsub t2 2;
           m \<leftarrow> fmul t2 s;
           n \<leftarrow> fsub m 1;
           k \<leftarrow> fmul a n;
           fadd k b
         }
     }"

subsection \<open>The browser state the handlers read and write\<close>

text \<open>
  The closure of one running animation: the constants computed at the click, and the
  variable \<^verbatim>\<open>start\<close>, which is \<^verbatim>\<open>null\<close> until the first frame.
\<close>

record animation_state =
  startPosition :: real
  distance :: real
  duration :: real
  start :: "real option"

text \<open>
  What the script reads and writes of the browser: \<^verbatim>\<open>window.pageYOffset\<close>,
  \<^verbatim>\<open>document.documentElement.scrollTop\<close>, and the callbacks handed to
  \<^verbatim>\<open>requestAnimFrame\<close> that have not run yet (each callback is the
  \<^verbatim>\<open>animation\<close> closure of one click).
\<close>

record window =
  pageYOffset :: real
  scrollTop :: real
  frames :: "animation_state list"

record event =
  defaultPrevented :: bool

text \<open>Of an element the script reads \<^verbatim>\<open>getBoundingClientRect().top\<close> only.\<close>

record element =
  rect_top :: real

datatype dom_exception = SyntaxError

text \<open>How a handler ends: it returns, or an exception leaves it uncaught.\<close>

datatype completion = Returned | Thrown dom_exception

text \<open>
  The page enters through \<^verbatim>\<open>document.querySelector\<close>, which the browser
  provides: for a selector it throws (a string that is no valid selector, such as
  \<^verbatim>\<open>#2024\<close>), returns \<^verbatim>\<open>null\<close>, or returns the first matching element.
  A document is that function.
\<close>

type_synonym document = "string \<Rightarrow> dom_exception + element option"

definition querySelector :: "document \<Rightarrow> string \<Rightarrow> dom_exception + element option" where
  "querySelector doc selector = doc selector"

definition preventDefault :: "event \<Rightarrow> event" where
  "preventDefault e = e\<lparr>defaultPrevented := True\<rparr>"

definition requestAnimFrame :: "animation_state \<Rightarrow> window \<Rightarrow> window" where
  "requestAnimFrame callback w = w\<lparr>frames := frames w @ [callback]\<rparr>"

text \<open>
  \<^verbatim>\<open>window.scrollTo(x, y)\<close> moves the viewport, and both readings of the vertical
  offset follow. The browser clamps \<open>y\<close> to the scrollable range of the page; the
  clamp is not modelled, and no statement below depends on the offset a frame writes.
\<close>

definition scrollTo :: "real \<Rightarrow> real \<Rightarrow> window \<Rightarrow> window" where
  "scrollTo x y w = w\<lparr>pageYOffset := y, scrollTop := y\<rparr>"

subsection \<open>The click handler of \<^verbatim>\<open>initSmoothScroll\<close>\<close>

text \<open>
  \<^verbatim>\<open>
  function animation(currentTime) {
      if (start === null) start = currentTime;
      const timeElapsed = currentTime - start;
      const run = ease(timeElapsed, startPosition, distance, duration);
      window.scrollTo(0, run);
      if (timeElapsed < duration) requestAnimFrame(animation);
  }
  \<close>
  One frame of the animation. The closure \<open>a\<close> is passed in, and the callback that
  is scheduled again carries the updated \<^verbatim>\<open>start\<close>.
\<close>

definition animation :: "real \<Rightarrow> animation_state \<Rightarrow> window \<Rightarrow> window" where
  "animation currentTime a w =
     (let start' = (case start a of None \<Rightarrow> currentTime | Some s \<Rightarrow> s);
          timeElapsed = currentTime - start';
          run = ease timeElapsed (startPosition a) (distance a) (duration a);
          w' = scrollTo 0 run w
      in if timeElapsed < duration a
         then requestAnimFrame (a\<lparr>start := Some start'\<rparr>) w'
         else w')"

text \<open>
  \<^verbatim>\<open>
  anchor.addEventListener('click', function(e) {
      const href = this.getAttribute('href');
      if (href === '#') { e.preventDefault(); return; }
      const target = document.querySelector(href);
      if (target) {
          e.preventDefault();
          const targetPosition = target.getBoundingClientRect().top + window.pageYOffset;
          const startPosition = window.pageYOffset;
          const distance = targetPosition - startPosition;
          const duration = 1000;
          let start = null;
          ...
          requestAnimFrame(animation);
      }
  });
  \<close>
  The handler takes the page, the link's \<^verbatim>\<open>href\<close> and the state (window and
  event), and returns the state it leaves together with how it ended. An exception of
  \<^verbatim>\<open>querySelector\<close> is not caught, so it ends the handler there.
\<close>

definition clickHandler ::
  "document \<Rightarrow> string \<Rightarrow> window \<times> event \<Rightarrow> (window \<times> event) \<times> completion" where
  "clickHandler doc href st =
     (case st of (w, e) \<Rightarrow>
        if href = ''#'' then ((w, preventDefault e), Returned)
        else (case querySelector doc href of
                Inl exn \<Rightarrow> ((w, e), Thrown exn)
              | Inr None \<Rightarrow> ((w, e), Returned)
              | Inr (Some target) \<Rightarrow>
                  (let e' = preventDefault e;
                       targetPosition = rect_top target + pageYOffset w;
                       startPosition = pageYOffset w;
                       distance = targetPosition - startPosition;
                       duration = 1000
                   in ((requestAnimFrame
                          \<lparr>startPosition = startPosition, distance = distance,
                           duration = duration, start = None\<rparr> w, e'), Returned))))"

subsection \<open>The scroll handler of \<^verbatim>\<open>initFixedHeaderEffect\<close>\<close>

text \<open>
  The state the handler owns: the header's \<^verbatim>\<open>classList\<close> (a list of distinct
  tokens, in the order they were added) and the closure variable
  \<^verbatim>\<open>lastScrollTop\<close>.
\<close>

record header =
  classList :: "string list"
  lastScrollTop :: real

definition scrollThreshold :: real where
  "scrollThreshold = 100"

definition deltaThreshold :: real where
  "deltaThreshold = 5"

definition classList_add :: "string \<Rightarrow> string list \<Rightarrow> string list" where
  "classList_add token tokens = (if token \<in> set tokens then tokens else tokens @ [token])"

definition classList_remove :: "string \<Rightarrow> string list \<Rightarrow> string list" where
  "classList_remove token tokens = removeAll token tokens"

text \<open>
  \<^verbatim>\<open>window.pageYOffset || document.documentElement.scrollTop\<close>: a Number is falsy
  when it is \<open>0\<close>.
\<close>

definition scrollOffset :: "window \<Rightarrow> real" where
  "scrollOffset w = (if pageYOffset w \<noteq> 0 then pageYOffset w else scrollTop w)"

text \<open>
  \<^verbatim>\<open>
  const headerScrollHandler = function() {
      const currentScroll = window.pageYOffset || document.documentElement.scrollTop;
      if (currentScroll < 0) { return; }
      if (currentScroll <= scrollThreshold) {
          header.classList.remove('header-hidden');
          header.classList.remove('header-scrolled');
          lastScrollTop = currentScroll;
          return;
      }
      const scrollDelta = currentScroll - lastScrollTop;
      if (Math.abs(scrollDelta) < deltaThreshold) { return; }
      if (scrollDelta > 0) {
          header.classList.add('header-hidden');
          header.classList.add('header-scrolled');
      } else {
          header.classList.remove('header-hidden');
          header.classList.add('header-scrolled');
      }
      lastScrollTop = currentScroll;
  };
  \<close>
\<close>

definition headerScrollHandler :: "window \<Rightarrow> header \<Rightarrow> header" where
  "headerScrollHandler w h =
     (let currentScroll = scrollOffset w in
      if currentScroll < 0 then h
      else if currentScroll \<le> scrollThreshold then
        h\<lparr>classList := classList_remove ''header-scrolled''
                          (classList_remove ''header-hidden'' (classList h)),
          lastScrollTop := currentScroll\<rparr>
      else (let scrollDelta = currentScroll - lastScrollTop h in
        if \<bar>scrollDelta\<bar> < deltaThreshold then h
        else if scrollDelta > 0 then
          h\<lparr>classList := classList_add ''header-scrolled''
                            (classList_add ''header-hidden'' (classList h)),
            lastScrollTop := currentScroll\<rparr>
        else
          h\<lparr>classList := classList_add ''header-scrolled''
                            (classList_remove ''header-hidden'' (classList h)),
            lastScrollTop := currentScroll\<rparr>))"

subsection \<open>Observations and runs\<close>

definition header_hidden :: "header \<Rightarrow> bool" where
  "header_hidden h = (''header-hidden'' \<in> set (classList h))"

definition header_scrolled :: "header \<Rightarrow> bool" where
  "header_scrolled h = (''header-scrolled'' \<in> set (classList h))"

text \<open>
  The header as \<^verbatim>\<open>initFixedHeaderEffect\<close> finds it when the element carries no
  class: \<^verbatim>\<open>let lastScrollTop = 0\<close>.
\<close>

definition initial_header :: header where
  "initial_header = \<lparr>classList = [], lastScrollTop = 0\<rparr>"

text \<open>A window scrolled to the offset \<open>s\<close>, with no animation pending.\<close>

definition scrolled_to :: "real \<Rightarrow> window" where
  "scrolled_to s = \<lparr>pageYOffset = s, scrollTop = s, frames = []\<rparr>"

text \<open>
  The handler run once per window reading, in order; the result lists the header after
  each run. The readings are those the handler is called with: the first call is the
  one \<^verbatim>\<open>initFixedHeaderEffect\<close> makes itself, and \<^verbatim>\<open>requestTick\<close>
  decides which later scroll events lead to a call.
\<close>

primrec scroll_trace :: "window list \<Rightarrow> header \<Rightarrow> header list" where
  "scroll_trace [] h = []"
| "scroll_trace (w # ws) h =
     headerScrollHandler w h # scroll_trace ws (headerScrollHandler w h)"

text \<open>
  A page with one section: \<^verbatim>\<open>#guides\<close> selects an element 640 pixels below the
  top of the viewport, \<^verbatim>\<open>#2024\<close> is no valid selector, and every other selector
  matches nothing.
\<close>

definition sample_document :: document where
  "sample_document selector =
     (if selector = ''#guides'' then Inr (Some \<lparr>rect_top = 640\<rparr>)
      else if selector = ''#2024'' then Inl SyntaxError
      else Inr None)"

section \<open>Properties of the easing formula\<close>

lemma ease_first_half:
  "t / (d / 2) < 1 \<Longrightarrow> ease t b c d = c / 2 * (t / (d / 2)) * (t / (d / 2)) + b"
  by (simp add: ease_def)

lemma ease_second_half:
  "\<not> t / (d / 2) < 1 \<Longrightarrow>
   ease t b c d = - c / 2 * ((t / (d / 2) - 1) * (t / (d / 2) - 1 - 2) - 1) + b"
  by (simp add: ease_def Let_def)

lemma second_half_poly:
  "- c / 2 * ((u - 1) * (u - 1 - 2) - 1) + b = c * ((1 - (u - 1) * (u - 3)) / 2) + (b::real)"
  by (simp add: field_simps)

lemma ease_as_unit: "ease t b c d = c * ease_unit (t / (d / 2)) + b"
proof (cases "t / (d / 2) < 1")
  case True
  then show ?thesis unfolding ease_first_half [OF True] ease_unit_def by simp
next
  case False
  show ?thesis unfolding ease_second_half [OF False] second_half_poly ease_unit_def
    using False by simp
qed

lemma ease_unit_mono:
  assumes "0 \<le> u" "u \<le> v" "v \<le> 2"
  shows "ease_unit u \<le> ease_unit v"
proof -
  consider (both_first) "v < 1" | (across) "u < 1" "1 \<le> v" | (both_second) "1 \<le> u"
    by linarith
  then show ?thesis
  proof cases
    case both_first
    then have "u * u \<le> v * v" using assms by (intro mult_mono) auto
    then show ?thesis using both_first assms by (simp add: ease_unit_def)
  next
    case across
    have "u * u \<le> 1" using across assms by (simp add: mult_le_one)
    moreover have "0 \<le> (v - 1) * (3 - v)"
      using across assms by (intro mult_nonneg_nonneg) auto
    moreover have "(v - 1) * (v - 3) = - ((v - 1) * (3 - v))"
      by (simp add: algebra_simps)
    ultimately show ?thesis using across by (simp add: ease_unit_def)
  next
    case both_second
    have "0 \<le> (v - u) * (4 - u - v)"
      using both_second assms by (intro mult_nonneg_nonneg) auto
    moreover have "(u - 1) * (u - 3) - (v - 1) * (v - 3) = (v - u) * (4 - u - v)"
      by (simp add: algebra_simps)
    ultimately have "(v - 1) * (v - 3) \<le> (u - 1) * (u - 3)" by linarith
    then show ?thesis using both_second assms by (simp add: ease_unit_def)
  qed
qed

lemma ease_unit_mirror: "ease_unit u + ease_unit (2 - u) = 1"
  by (auto simp: ease_unit_def field_simps)

lemma scaled_range:
  assumes "0 < d" "0 \<le> t1" "t1 \<le> t2" "t2 \<le> d"
  shows "0 \<le> t1 / (d / 2) \<and> t1 / (d / 2) \<le> t2 / (d / 2) \<and> t2 / (d / 2) \<le> (2::real)"
  using assms by (simp add: field_simps)

lemma mirrored_arg: "d \<noteq> 0 \<Longrightarrow> (d - t) / (d / 2) = 2 - t / (d / (2::real))"
  by (simp add: field_simps)

text \<open>
  C3: for every start position \<open>b\<close>, distance \<open>c\<close> and positive duration \<open>d\<close>, the eased
  position at elapsed time \<open>0\<close> is \<open>b\<close>, and at elapsed time \<open>d\<close> it is \<open>b + c\<close>.
\<close>

theorem ease_endpoints:
  "0 < d \<Longrightarrow> ease 0 b c d = b \<and> ease d b c d = b + c"
  by (simp add: ease_def Let_def)

text \<open>A scroll from offset 200 over a distance of 300 in 1000 time units.\<close>

theorem ease_endpoints_witness:
  "(0::real) < 1000 \<and> ease 0 200 300 1000 = 200 \<and> ease 1000 200 300 1000 = 200 + 300"
  using ease_endpoints [of 1000 200 300] by simp

text \<open>
  C4: for every start position \<open>b\<close>, distance \<open>c\<close>, positive duration \<open>d\<close> and all times
  \<open>t1 \<le> t2\<close> in \<open>[0, d]\<close>, the eased position moves in the direction of the distance:
  it does not decrease from \<open>t1\<close> to \<open>t2\<close> when \<open>c \<ge> 0\<close>, and does not increase when
  \<open>c \<le> 0\<close>.
\<close>

theorem ease_monotone:
  assumes "0 < d" "0 \<le> t1" "t1 \<le> t2" "t2 \<le> d"
  shows "(0 \<le> c \<longrightarrow> ease t1 b c d \<le> ease t2 b c d) \<and>
         (c \<le> 0 \<longrightarrow> ease t2 b c d \<le> ease t1 b c d)"
proof -
  have unit: "ease_unit (t1 / (d / 2)) \<le> ease_unit (t2 / (d / 2))"
    using scaled_range [OF assms] by (intro ease_unit_mono) blast+
  have "ease t1 b c d \<le> ease t2 b c d" if "0 \<le> c"
    unfolding ease_as_unit using unit that by (simp add: mult_left_mono)
  moreover have "ease t2 b c d \<le> ease t1 b c d" if "c \<le> 0"
    unfolding ease_as_unit using unit that by (simp add: mult_left_mono_neg)
  ultimately show ?thesis by blast
qed

text \<open>
  A quarter and three quarters of the way through a scroll of 1000 time units from
  offset 100: downwards over 400, and upwards over 400.
\<close>

theorem ease_monotone_witness:
  "(0::real) < 1000 \<and> (0::real) \<le> 250 \<and> (250::real) \<le> 750 \<and> (750::real) \<le> 1000 \<and>
   (0::real) \<le> 400 \<and> ease 250 100 400 1000 \<le> ease 750 100 400 1000 \<and>
   (- 400::real) \<le> 0 \<and> ease 750 100 (- 400) 1000 \<le> ease 250 100 (- 400) 1000"
  using ease_monotone [of 1000 250 750 400 100] ease_monotone [of 1000 250 750 "- 400" 100]
  by simp

text \<open>In exact arithmetic the curve is symmetric about the midpoint of the duration.\<close>

lemma ease_mirror:
  assumes "0 < d"
  shows "ease t b c d + ease (d - t) b c d = 2 * b + c"
proof -
  have "ease t b c d + ease (d - t) b c d
      = c * (ease_unit (t / (d / 2)) + ease_unit (2 - t / (d / 2))) + 2 * b"
    unfolding ease_as_unit using assms
    by (simp only: mirrored_arg) (simp add: algebra_simps)
  then show ?thesis by (simp add: ease_unit_mirror)
qed

text \<open>
  The two halves of the curve: up to the midpoint the displacement from the start is
  quadratic in the elapsed time, from the midpoint on the displacement that remains is
  quadratic in the time that remains.
\<close>

lemma ease_accelerates:
  assumes "0 < d" "t < d / 2"
  shows "ease t b c d = b + c / 2 * (t / (d / 2)) * (t / (d / 2))"
proof -
  have "t / (d / 2) < 1" using assms by (simp add: field_simps)
  then show ?thesis by (simp add: ease_first_half)
qed

lemma second_half_remaining:
  "c * ((1 - (u - 1) * (u - 3)) / 2) + b = b + c - c / 2 * (2 - u) * (2 - (u::real))"
  by (simp add: field_simps)

lemma ease_decelerates:
  assumes "0 < d" "d / 2 \<le> t"
  shows "ease t b c d = b + c - c / 2 * ((d - t) / (d / 2)) * ((d - t) / (d / 2))"
proof -
  have late: "\<not> t / (d / 2) < 1" using assms by (simp add: field_simps)
  have nz: "d \<noteq> 0" using assms(1) by simp
  show ?thesis
    unfolding ease_second_half [OF late] second_half_poly second_half_remaining
    by (simp only: mirrored_arg [OF nz])
qed

section \<open>The easing formula in binary64\<close>

subsection \<open>Rounding\<close>

lemma round_half_even_error: "\<bar>of_int (round_half_even q) - q\<bar> \<le> 1 / 2"
  unfolding round_half_even_def Let_def by (auto simp: abs_if) linarith+

lemma binade_of_bounds:
  "0 < x \<Longrightarrow> 2 powi binade_of x \<le> x \<and> x < 2 powi (binade_of x + 1)"
proof (induction x rule: binade_of.induct)
  case (1 x)
  consider (small) "x < 1" | (large) "2 \<le> x" | (unit) "1 \<le> x" "x < 2" by linarith
  then show ?case
  proof cases
    case small
    then have e: "binade_of x = binade_of (2 * x) - 1"
      using "1.prems" by (subst binade_of.simps) simp
    have "2 powi binade_of (2 * x) \<le> 2 * x \<and> 2 * x < 2 powi (binade_of (2 * x) + 1)"
      using "1.IH"(1) "1.prems" small by simp
    then show ?thesis unfolding e by (simp add: power_int_diff power_int_add)
  next
    case large
    then have e: "binade_of x = binade_of (x / 2) + 1"
      using "1.prems" by (subst binade_of.simps) simp
    have "2 powi binade_of (x / 2) \<le> x / 2 \<and> x / 2 < 2 powi (binade_of (x / 2) + 1)"
      using "1.IH"(2) "1.prems" large by simp
    then show ?thesis unfolding e by (simp add: power_int_add)
  next
    case unit
    then have "binade_of x = 0" by (subst binade_of.simps) simp
    then show ?thesis using unit by simp
  qed
qed

lemma binade_bounds:
  assumes "x \<noteq> 0"
  shows "2 powi binade x \<le> \<bar>x\<bar>" "\<bar>x\<bar> < 2 powi (binade x + 1)"
  using binade_of_bounds [of "\<bar>x\<bar>"] assms by (simp_all add: binade_def)

lemma binade_eqI: "2 powi k \<le> \<bar>x\<bar> \<Longrightarrow> \<bar>x\<bar> < 2 powi (k + 1) \<Longrightarrow> binade x = k"
proof -
  assume a: "2 powi k \<le> \<bar>x\<bar>" and b: "\<bar>x\<bar> < 2 powi (k + 1)"
  have "(0::real) < 2 powi k" by simp
  with a have "0 < \<bar>x\<bar>" by linarith
  then have nz: "x \<noteq> 0" by simp
  note e = binade_bounds [OF nz]
  have "\<not> binade x + 1 \<le> k"
  proof
    assume "binade x + 1 \<le> k"
    then have "(2::real) powi (binade x + 1) \<le> 2 powi k" by (intro power_int_increasing) auto
    then show False using a e(2) by linarith
  qed
  moreover have "\<not> k + 1 \<le> binade x"
  proof
    assume "k + 1 \<le> binade x"
    then have "(2::real) powi (k + 1) \<le> 2 powi binade x" by (intro power_int_increasing) auto
    then show False using b e(1) by linarith
  qed
  ultimately show ?thesis by linarith
qed

lemma round53_error: "\<bar>round53 x - x\<bar> \<le> \<bar>x\<bar> / 2 ^ 53"
proof (cases "x = 0")
  case True
  then show ?thesis by (simp add: round53_def)
next
  case False
  define s :: real where "s = 2 powi (binade x - 52)"
  have s: "0 < s" by (simp add: s_def)
  have "round53 x - x = (of_int (round_half_even (x / s)) - x / s) * s"
    using False s by (simp add: round53_def s_def field_simps)
  then have "\<bar>round53 x - x\<bar> = \<bar>of_int (round_half_even (x / s)) - x / s\<bar> * s"
    using s by (simp add: abs_mult)
  also have "\<dots> \<le> 1 / 2 * s"
    using round_half_even_error [of "x / s"] s by (intro mult_right_mono) auto
  also have "1 / 2 * s = 2 powi binade x / 2 ^ 53"
    by (simp add: s_def power_int_diff)
  also have "\<dots> \<le> \<bar>x\<bar> / 2 ^ 53"
    using binade_bounds(1) [OF False] by (simp add: divide_right_mono)
  finally show ?thesis .
qed

text \<open>
  A rounded result is within a relative error of \<open>1 / 2 ^ 53\<close> of the exact one;
  \<open>2 ^ 53 = 9007199254740992\<close>.
\<close>

lemma round64_error: "round64 z = Some r \<Longrightarrow> \<bar>r - z\<bar> \<le> \<bar>z\<bar> / 9007199254740992"
  using round53_error [of z] by (auto simp: round64_def split: if_splits)

text \<open>Evaluating a rounding whose exponent is known.\<close>

lemma round64_eqI:
  assumes "2 powi k \<le> \<bar>x\<bar>" "\<bar>x\<bar> < 2 powi (k + 1)"
    and "of_int (round_half_even (x / 2 powi (k - 52))) * 2 powi (k - 52) = y"
    and "- 1022 \<le> k" "\<bar>y\<bar> < 2 powi 1024"
  shows "round64 x = Some y"
proof -
  have b: "binade x = k" using assms(1,2) by (rule binade_eqI)
  have nz: "x \<noteq> 0" using assms(1) by (smt (verit) zero_less_power_int zero_less_numeral abs_zero)
  have "(2::real) powi (- 1022) \<le> 2 powi k" using assms(4) by (intro power_int_increasing) auto
  then have lo: "\<not> \<bar>x\<bar> < 2 powi (- 1022)" using assms(1) by linarith
  have r: "round53 x = y" using nz assms(3) by (simp add: round53_def b)
  show ?thesis using nz lo r assms(5) by (simp add: round64_def)
qed

subsection \<open>The error of one evaluation\<close>

lemma abs_mult_le: "\<bar>x\<bar> \<le> X \<Longrightarrow> \<bar>y\<bar> \<le> Y \<Longrightarrow> \<bar>x * y\<bar> \<le> X * (Y::real)"
  unfolding abs_mult by (intro mult_mono) auto

lemma mult_error:
  fixes x y X Y :: real
  assumes "\<bar>x - X\<bar> \<le> ex" "\<bar>y - Y\<bar> \<le> ey" "\<bar>x\<bar> \<le> Mx" "\<bar>Y\<bar> \<le> MY"
  shows "\<bar>x * y - X * Y\<bar> \<le> Mx * ey + MY * ex"
proof -
  have "x * y - X * Y = x * (y - Y) + Y * (x - X)" by (simp add: algebra_simps)
  then have "\<bar>x * y - X * Y\<bar> \<le> \<bar>x * (y - Y)\<bar> + \<bar>Y * (x - X)\<bar>" by simp
  moreover have "\<bar>x * (y - Y)\<bar> \<le> Mx * ey" using assms by (intro abs_mult_le) auto
  moreover have "\<bar>Y * (x - X)\<bar> \<le> MY * ex" using assms by (intro abs_mult_le) auto
  ultimately show ?thesis by linarith
qed

lemma ease_unit_lipschitz:
  assumes "0 \<le> a" "a \<le> 3" "0 \<le> b" "b \<le> 3"
  shows "\<bar>ease_unit a - ease_unit b\<bar> \<le> \<bar>a - b\<bar>"
proof -
  have below: "\<bar>x * x / 2 - y * y / 2\<bar> \<le> \<bar>x - y\<bar>"
    if "0 \<le> x" "x \<le> 1" "0 \<le> y" "y \<le> 1" for x y :: real
  proof -
    have eq: "x * x / 2 - y * y / 2 = (x - y) * ((x + y) / 2)" by (simp add: algebra_simps)
    have "\<bar>(x - y) * ((x + y) / 2)\<bar> \<le> \<bar>x - y\<bar> * 1"
      using that by (intro abs_mult_le) auto
    then show ?thesis unfolding eq by simp
  qed
  have above: "\<bar>(1 - (x - 1) * (x - 3)) / 2 - (1 - (y - 1) * (y - 3)) / 2\<bar> \<le> \<bar>x - y\<bar>"
    if "1 \<le> x" "x \<le> 3" "1 \<le> y" "y \<le> 3" for x y :: real
  proof -
    have eq: "(1 - (x - 1) * (x - 3)) / 2 - (1 - (y - 1) * (y - 3)) / 2
              = (x - y) * ((4 - x - y) / 2)"
      by (simp add: field_simps)
    have "\<bar>(x - y) * ((4 - x - y) / 2)\<bar> \<le> \<bar>x - y\<bar> * 1"
      using that by (intro abs_mult_le) auto
    then show ?thesis unfolding eq by simp
  qed
  have across: "\<bar>x * x / 2 - (1 - (y - 1) * (y - 3)) / 2\<bar> \<le> \<bar>x - y\<bar>"
    if "0 \<le> x" "x < 1" "1 \<le> y" "y \<le> 3" for x y :: real
  proof -
    have "\<bar>x * x / 2 - 1 * 1 / 2\<bar> \<le> \<bar>x - 1\<bar>" using that by (intro below) auto
    moreover have "\<bar>(1 - (1 - 1) * (1 - 3)) / 2 - (1 - (y - 1) * (y - 3)) / 2\<bar> \<le> \<bar>1 - y\<bar>"
      using that by (intro above) auto
    ultimately show ?thesis using that by simp
  qed
  consider "a < 1" "b < 1" | "a < 1" "1 \<le> b" | "1 \<le> a" "b < 1" | "1 \<le> a" "1 \<le> b"
    by linarith
  then show ?thesis
  proof cases
    case 1
    then show ?thesis using below [of a b] assms by (simp add: ease_unit_def)
  next
    case 2
    then show ?thesis using across [of a b] assms by (simp add: ease_unit_def)
  next
    case 3
    then show ?thesis using across [of b a] assms by (simp add: ease_unit_def abs_minus_commute)
  next
    case 4
    then show ?thesis using above [of a b] assms by (simp add: ease_unit_def)
  qed
qed

lemma scaled_time_error:
  assumes "0 < d" "0 \<le> t" "t \<le> d" "fdiv d 2 = Some h" "fdiv t h = Some t1"
  shows "0 \<le> t1 \<and> \<bar>t1 - t / (d / 2)\<bar> \<le> 5 / 9007199254740992"
proof -
  have h: "\<bar>h - d / 2\<bar> \<le> \<bar>d / 2\<bar> / 9007199254740992"
    using assms(4) by (intro round64_error) (simp add: fdiv_def)
  then have hlow: "d * (999 / 2000) \<le> h" using assms(1) by linarith
  then have hpos: "0 < h" using assms(1) by linarith
  define w where "w = t / h"
  have w0: "0 \<le> w" using assms(2) hpos by (simp add: w_def)
  have "t \<le> h * (2000 / 999)" using hlow assms(3) by simp
  then have wup: "w \<le> 2000 / 999" using hpos by (simp add: w_def field_simps)
  have t1: "\<bar>t1 - w\<bar> \<le> \<bar>w\<bar> / 9007199254740992"
    using assms(5) hpos by (intro round64_error) (simp add: fdiv_def w_def)
  have "w - t / (d / 2) = w * ((d - 2 * h) / d)"
    using hpos assms(1) by (simp add: w_def field_simps)
  moreover have "\<bar>(d - 2 * h) / d\<bar> \<le> 1 / 9007199254740992"
    using h assms(1) by (simp add: field_simps abs_if split: if_splits)
  ultimately have "\<bar>w - t / (d / 2)\<bar> \<le> (2000 / 999) * (1 / 9007199254740992)"
    using w0 wup abs_mult_le [of w "2000 / 999" "(d - 2 * h) / d" "1 / 9007199254740992"] by simp
  then show ?thesis using t1 w0 wup by (simp add: abs_if split: if_splits)
qed

lemma first_half_error:
  assumes "0 \<le> t1" "t1 < 1"
    and "fdiv c 2 = Some a" "fmul a t1 = Some p" "fmul p t1 = Some q" "fadd q b = Some r"
  shows "\<bar>r - (c * ease_unit t1 + b)\<bar> \<le> (3 * \<bar>c\<bar> + \<bar>b\<bar>) / 9007199254740992"
proof -
  have unit_le: "\<bar>x * t1\<bar> \<le> \<bar>x\<bar>" for x
    using abs_mult_le [of x "\<bar>x\<bar>" t1 1] assms(1,2) by simp
  have a: "\<bar>a - c / 2\<bar> \<le> \<bar>c / 2\<bar> / 9007199254740992"
    using assms(3) by (intro round64_error) (simp add: fdiv_def)
  then have a_le: "\<bar>a\<bar> \<le> (501 / 1000) * \<bar>c\<bar>" by argo
  have p: "\<bar>p - a * t1\<bar> \<le> \<bar>a * t1\<bar> / 9007199254740992"
    using assms(4) by (intro round64_error) (simp add: fmul_def)
  have at1: "\<bar>a * t1\<bar> \<le> \<bar>a\<bar>" by (rule unit_le)
  have p_le: "\<bar>p\<bar> \<le> (502 / 1000) * \<bar>c\<bar>" using p at1 a_le by argo
  have "\<bar>a * t1 - c / 2 * t1\<bar> \<le> \<bar>a - c / 2\<bar>"
    using unit_le [of "a - c / 2"] by (simp add: algebra_simps)
  then have p_err: "\<bar>p - c / 2 * t1\<bar> \<le> (1002 / 1000) * \<bar>c\<bar> / 9007199254740992"
    using p at1 a a_le by argo
  have q: "\<bar>q - p * t1\<bar> \<le> \<bar>p * t1\<bar> / 9007199254740992"
    using assms(5) by (intro round64_error) (simp add: fmul_def)
  have pt1: "\<bar>p * t1\<bar> \<le> \<bar>p\<bar>" by (rule unit_le)
  have q_le: "\<bar>q\<bar> \<le> (503 / 1000) * \<bar>c\<bar>" using q pt1 p_le by argo
  have "\<bar>p * t1 - c / 2 * t1 * t1\<bar> \<le> \<bar>p - c / 2 * t1\<bar>"
    using unit_le [of "p - c / 2 * t1"] by (simp add: algebra_simps)
  then have q_err: "\<bar>q - c / 2 * t1 * t1\<bar> \<le> (16 / 10) * \<bar>c\<bar> / 9007199254740992"
    using q pt1 p_le p_err by argo
  have r: "\<bar>r - (q + b)\<bar> \<le> \<bar>q + b\<bar> / 9007199254740992"
    using assms(6) by (intro round64_error) (simp add: fadd_def)
  have eq: "c * ease_unit t1 + b = c / 2 * t1 * t1 + b"
    using assms(2) by (simp add: ease_unit_def)
  show ?thesis unfolding eq using r q_err q_le by argo
qed

lemma second_half_error:
  assumes "1 \<le> t1" "t1 \<le> 2001 / 1000"
    and "fsub t1 1 = Some t2" "fdiv (- c) 2 = Some a" "fsub t2 2 = Some s"
    and "fmul t2 s = Some m" "fsub m 1 = Some n" "fmul a n = Some k" "fadd k b = Some r"
  shows "\<bar>r - (c * ease_unit t1 + b)\<bar> \<le> (9 * \<bar>c\<bar> + \<bar>b\<bar>) / 9007199254740992"
proof -
  define v where "v = t1 - 1"
  define X where "X = v * (v - 2)"
  have v: "0 \<le> v" "v \<le> 1001 / 1000" using assms(1,2) by (simp_all add: v_def)
  have t2: "\<bar>t2 - v\<bar> \<le> \<bar>v\<bar> / 9007199254740992"
    using assms(3) unfolding v_def by (intro round64_error) (simp add: fsub_def)
  then have t2_err: "\<bar>t2 - v\<bar> \<le> (1001 / 1000) / 9007199254740992" using v by argo
  have t2_rng: "0 \<le> t2" "t2 \<le> 1002 / 1000" using t2 v by argo+
  have a: "\<bar>a - (- c / 2)\<bar> \<le> \<bar>- c / 2\<bar> / 9007199254740992"
    using assms(4) by (intro round64_error) (simp add: fdiv_def)
  then have a_err: "\<bar>a - (- c / 2)\<bar> \<le> (1 / 2) * \<bar>c\<bar> / 9007199254740992" by argo
  have a_le: "\<bar>a\<bar> \<le> (501 / 1000) * \<bar>c\<bar>" using a by argo
  have s: "\<bar>s - (t2 - 2)\<bar> \<le> \<bar>t2 - 2\<bar> / 9007199254740992"
    using assms(5) by (intro round64_error) (simp add: fsub_def)
  have s_err: "\<bar>s - (v - 2)\<bar> \<le> (31 / 10) / 9007199254740992"
    using s t2_err t2_rng by argo
  have s_le: "\<bar>s\<bar> \<le> 2001 / 1000" using s t2_rng by argo
  have m: "\<bar>m - t2 * s\<bar> \<le> \<bar>t2 * s\<bar> / 9007199254740992"
    using assms(6) by (intro round64_error) (simp add: fmul_def)
  have t2s_le: "\<bar>t2 * s\<bar> \<le> (1002 / 1000) * (2001 / 1000)"
    using t2_rng s_le by (intro abs_mult_le) auto
  have "\<bar>t2 * s - v * (v - 2)\<bar>
      \<le> (1002 / 1000) * ((31 / 10) / 9007199254740992) + 2 * ((1001 / 1000) / 9007199254740992)"
    using t2_err s_err t2_rng v by (intro mult_error) auto
  then have exact_prod: "\<bar>t2 * s - X\<bar> \<le> (52 / 10) / 9007199254740992"
    unfolding X_def by argo
  have m_err: "\<bar>m - X\<bar> \<le> (73 / 10) / 9007199254740992"
    using m t2s_le exact_prod by argo
  have sq: "X = (v - 1) * (v - 1) - 1" by (simp add: X_def algebra_simps)
  have "\<bar>(v - 1) * (v - 1)\<bar> \<le> 1 * 1" using v by (intro abs_mult_le) auto
  moreover have "0 \<le> (v - 1) * (v - 1)" by simp
  ultimately have core: "- 1 \<le> X" "X \<le> 0" unfolding sq by argo+
  have m_le: "\<bar>m - 1\<bar> \<le> 2001 / 1000" using m_err core by argo
  have n: "\<bar>n - (m - 1)\<bar> \<le> \<bar>m - 1\<bar> / 9007199254740992"
    using assms(7) by (intro round64_error) (simp add: fsub_def)
  have n_err: "\<bar>n - (X - 1)\<bar> \<le> (94 / 10) / 9007199254740992"
    using n m_le m_err by argo
  have n_le: "\<bar>n\<bar> \<le> 2001 / 1000" using n_err core by argo
  have k: "\<bar>k - a * n\<bar> \<le> \<bar>a * n\<bar> / 9007199254740992"
    using assms(8) by (intro round64_error) (simp add: fmul_def)
  have an_le: "\<bar>a * n\<bar> \<le> (501 / 1000) * \<bar>c\<bar> * (2001 / 1000)"
    using a_le n_le by (intro abs_mult_le) auto
  have "\<bar>a * n - (- c / 2) * (X - 1)\<bar>
      \<le> (501 / 1000) * \<bar>c\<bar> * ((94 / 10) / 9007199254740992)
        + 2 * ((1 / 2) * \<bar>c\<bar> / 9007199254740992)"
    using a_err n_err a_le core by (intro mult_error) auto
  then have an_err: "\<bar>a * n - (- c / 2) * (X - 1)\<bar> \<le> (58 / 10) * \<bar>c\<bar> / 9007199254740992"
    by argo
  have k_err: "\<bar>k - (- c / 2) * (X - 1)\<bar> \<le> (69 / 10) * \<bar>c\<bar> / 9007199254740992"
    using k an_le an_err by argo
  have "\<bar>(- c / 2) * (X - 1)\<bar> \<le> (\<bar>c\<bar> / 2) * 2"
    using core by (intro abs_mult_le) auto
  then have k_le: "\<bar>k\<bar> \<le> (1001 / 1000) * \<bar>c\<bar>" using k_err by argo
  have r: "\<bar>r - (k + b)\<bar> \<le> \<bar>k + b\<bar> / 9007199254740992"
    using assms(9) by (intro round64_error) (simp add: fadd_def)
  have eq: "c * ease_unit t1 + b = (- c / 2) * (X - 1) + b"
    using assms(1) by (simp add: ease_unit_def v_def X_def field_simps)
  show ?thesis unfolding eq using r k_err k_le by argo
qed

lemma ease64_cases:
  assumes "ease64 t b c d = Some r"
  obtains (first_half) h t1 a p q where
      "fdiv d 2 = Some h" "fdiv t h = Some t1" "t1 < 1"
      "fdiv c 2 = Some a" "fmul a t1 = Some p" "fmul p t1 = Some q" "fadd q b = Some r"
  | (second_half) h t1 t2 a s m n k where
      "fdiv d 2 = Some h" "fdiv t h = Some t1" "1 \<le> t1"
      "fsub t1 1 = Some t2" "fdiv (- c) 2 = Some a" "fsub t2 2 = Some s"
      "fmul t2 s = Some m" "fsub m 1 = Some n" "fmul a n = Some k" "fadd k b = Some r"
proof -
  from assms obtain h t1 where h: "fdiv d 2 = Some h" and t1: "fdiv t h = Some t1"
    and branch:
      "(if t1 < 1 then
          do { a \<leftarrow> fdiv c 2; p \<leftarrow> fmul a t1; q \<leftarrow> fmul p t1; fadd q b }
        else
          do { t2 \<leftarrow> fsub t1 1; a \<leftarrow> fdiv (- c) 2; s \<leftarrow> fsub t2 2;
               m \<leftarrow> fmul t2 s; n \<leftarrow> fsub m 1; k \<leftarrow> fmul a n; fadd k b }) = Some r"
    unfolding ease64_def by (auto simp only: bind_eq_Some_conv)
  show thesis
  proof (cases "t1 < 1")
    case True
    with branch obtain a p q where
      "fdiv c 2 = Some a" "fmul a t1 = Some p" "fmul p t1 = Some q" "fadd q b = Some r"
      by (auto simp: bind_eq_Some_conv)
    with h t1 True show thesis by (rule first_half)
  next
    case False
    with branch obtain t2 a s m n k where
      "fsub t1 1 = Some t2" "fdiv (- c) 2 = Some a" "fsub t2 2 = Some s"
      "fmul t2 s = Some m" "fsub m 1 = Some n" "fmul a n = Some k" "fadd k b = Some r"
      by (auto simp: bind_eq_Some_conv)
    moreover have "1 \<le> t1" using False by simp
    ultimately show thesis using h t1 by (intro second_half) auto
  qed
qed

lemma ease64_error:
  assumes "0 < d" "0 \<le> t" "t \<le> d" "ease64 t b c d = Some r"
  shows "\<bar>r - ease t b c d\<bar> \<le> (14 * \<bar>c\<bar> + \<bar>b\<bar>) / 9007199254740992"
proof -
  define u where "u = t / (d / 2)"
  have u: "0 \<le> u" "u \<le> 2"
    using scaled_range [OF assms(1,2) order_refl assms(3)] by (simp_all add: u_def)
  have exact: "ease t b c d = c * ease_unit u + b" by (simp add: ease_as_unit u_def)
  have near: "\<bar>r - (c * ease_unit t1 + b)\<bar> \<le> (9 * \<bar>c\<bar> + \<bar>b\<bar>) / 9007199254740992
      \<and> 0 \<le> t1 \<and> \<bar>t1 - u\<bar> \<le> 5 / 9007199254740992"
    if h: "fdiv d 2 = Some h" and t1: "fdiv t h = Some t1"
      and br: "0 \<le> t1 \<Longrightarrow> t1 \<le> 2001 / 1000 \<Longrightarrow>
          \<bar>r - (c * ease_unit t1 + b)\<bar> \<le> (9 * \<bar>c\<bar> + \<bar>b\<bar>) / 9007199254740992"
    for h t1
  proof -
    have st: "0 \<le> t1" "\<bar>t1 - u\<bar> \<le> 5 / 9007199254740992"
      using scaled_time_error [OF assms(1-3) h t1] by (simp_all add: u_def)
    then have "t1 \<le> 2001 / 1000" using u by argo
    with br st show ?thesis by blast
  qed
  have fin: "\<bar>r - ease t b c d\<bar> \<le> (14 * \<bar>c\<bar> + \<bar>b\<bar>) / 9007199254740992"
    if "\<bar>r - (c * ease_unit t1 + b)\<bar> \<le> (9 * \<bar>c\<bar> + \<bar>b\<bar>) / 9007199254740992
      \<and> 0 \<le> t1 \<and> \<bar>t1 - u\<bar> \<le> 5 / 9007199254740992" for t1
  proof -
    have t1: "0 \<le> t1" "t1 \<le> 3" using that u by argo+
    have "\<bar>ease_unit t1 - ease_unit u\<bar> \<le> \<bar>t1 - u\<bar>"
      using t1 u by (intro ease_unit_lipschitz) auto
    then have "\<bar>ease_unit t1 - ease_unit u\<bar> \<le> 5 / 9007199254740992" using that by argo
    then have "\<bar>c * (ease_unit t1 - ease_unit u)\<bar> \<le> \<bar>c\<bar> * (5 / 9007199254740992)"
      by (intro abs_mult_le) auto
    then have "\<bar>(c * ease_unit t1 + b) - (c * ease_unit u + b)\<bar> \<le> 5 * \<bar>c\<bar> / 9007199254740992"
      by (simp add: algebra_simps)
    then show ?thesis unfolding exact using that by argo
  qed
  from assms(4) show ?thesis
  proof (cases rule: ease64_cases)
    case (first_half h t1 a p q)
    have "\<bar>r - (c * ease_unit t1 + b)\<bar> \<le> (3 * \<bar>c\<bar> + \<bar>b\<bar>) / 9007199254740992" if "0 \<le> t1"
      using that first_half by (intro first_half_error) auto
    then have "0 \<le> t1 \<Longrightarrow> \<bar>r - (c * ease_unit t1 + b)\<bar> \<le> (9 * \<bar>c\<bar> + \<bar>b\<bar>) / 9007199254740992"
      by argo
    then show ?thesis using near [OF first_half(1,2)] fin by blast
  next
    case (second_half h t1 t2 a s m n k)
    have "t1 \<le> 2001 / 1000 \<Longrightarrow>
        \<bar>r - (c * ease_unit t1 + b)\<bar> \<le> (9 * \<bar>c\<bar> + \<bar>b\<bar>) / 9007199254740992"
      using second_half by (intro second_half_error) auto
    then show ?thesis using near [OF second_half(1,2)] fin by blast
  qed
qed

subsection \<open>One evaluation early and one late in a scroll\<close>

text \<open>
  \<^verbatim>\<open>ease(1, 40, 640, 1000)\<close> and \<^verbatim>\<open>ease(999, 40, 640, 1000)\<close> in binary64,
  one operation at a time: a scroll from offset 40 over a distance of 640, one time unit
  after its start and one before its end.
\<close>

lemma early_step0:
  "fdiv 1000 2
     = Some 500"
  by (simp add: fdiv_def, rule round64_eqI [where k = "8"])
    (simp_all add: round_half_even_def)

lemma early_step1:
  "fdiv 1 500
     = Some (1152921504606847 / 576460752303423488)"
  by (simp add: fdiv_def, rule round64_eqI [where k = "-9"])
    (simp_all add: round_half_even_def)

lemma early_step2:
  "fdiv 640 2
     = Some 320"
  by (simp add: fdiv_def, rule round64_eqI [where k = "8"])
    (simp_all add: round_half_even_def)

lemma early_step3:
  "fmul 320 (1152921504606847 / 576460752303423488)
     = Some (5764607523034235 / 9007199254740992)"
  unfolding fmul_def
  by (rule round64_eqI [where k = "-1"]) (simp_all add: round_half_even_def)

lemma early_step4:
  "fmul (5764607523034235 / 9007199254740992) (1152921504606847 / 576460752303423488)
     = Some (5902958103587057 / 4611686018427387904)"
  unfolding fmul_def
  by (rule round64_eqI [where k = "-10"]) (simp_all add: round_half_even_def)

lemma early_step5:
  "fadd (5902958103587057 / 4611686018427387904) 40
     = Some (5629679678198215 / 140737488355328)"
  unfolding fadd_def
  by (rule round64_eqI [where k = "5"]) (simp_all add: round_half_even_def)

lemma late_step1:
  "fdiv 999 500
     = Some (8998192055486251 / 4503599627370496)"
  by (simp add: fdiv_def, rule round64_eqI [where k = "0"])
    (simp_all add: round_half_even_def)

lemma late_step2:
  "fsub (8998192055486251 / 4503599627370496) 1
     = Some (4494592428115755 / 4503599627370496)"
  unfolding fsub_def
  by (rule round64_eqI [where k = "-1"]) (simp_all add: round_half_even_def)

lemma late_step3:
  "fdiv (- 640) 2
     = Some (- 320)"
  by (simp add: fdiv_def, rule round64_eqI [where k = "8"])
    (simp_all add: round_half_even_def)

lemma late_step4:
  "fsub (4494592428115755 / 4503599627370496) 2
     = Some (- (4512606826625237 / 4503599627370496))"
  unfolding fsub_def
  by (rule round64_eqI [where k = "0"]) (simp_all add: round_half_even_def)

lemma late_step5:
  "fmul (4494592428115755 / 4503599627370496) (- (4512606826625237 / 4503599627370496))
     = Some (- (9007163225943973 / 9007199254740992))"
  unfolding fmul_def
  by (rule round64_eqI [where k = "-1"]) (simp_all add: round_half_even_def)

lemma late_step6:
  "fsub (- (9007163225943973 / 9007199254740992)) 1
     = Some (- (4503590620171241 / 2251799813685248))"
  unfolding fsub_def
  by (rule round64_eqI [where k = "0"]) (simp_all add: round_half_even_def)

lemma late_step7:
  "fmul (- 320) (- (4503590620171241 / 2251799813685248))
     = Some (5629488275214051 / 8796093022208)"
  unfolding fmul_def
  by (rule round64_eqI [where k = "9"]) (simp_all add: round_half_even_def)

lemma late_step8:
  "fadd (5629488275214051 / 8796093022208) 40
     = Some (5981331996102371 / 8796093022208)"
  unfolding fadd_def
  by (rule round64_eqI [where k = "9"]) (simp_all add: round_half_even_def)

lemma ease64_early: "ease64 1 40 640 1000 = Some (5629679678198215 / 140737488355328)"
  by (simp add: ease64_def early_step0 early_step1 early_step2 early_step3 early_step4
      early_step5)

lemma ease64_late: "ease64 999 40 640 1000 = Some (5981331996102371 / 8796093022208)"
  by (simp add: ease64_def early_step0 late_step1 late_step2 late_step3 late_step4
      late_step5 late_step6 late_step7 late_step8)

text \<open>The sum of the two positions, as the \<^verbatim>\<open>+\<close> of the script computes it.\<close>

lemma sum_step:
  "fadd (5629679678198215 / 140737488355328) (5981331996102371 / 8796093022208)
     = Some (6333186975989759 / 8796093022208)"
  unfolding fadd_def
  by (rule round64_eqI [where k = "9"]) (simp_all add: round_half_even_def)

text \<open>
  C5, as binary64 has it: the easing curve is a quadratic ease-in-out, symmetric about
  the midpoint of the duration up to rounding. For every start position \<open>b\<close>, distance
  \<open>c\<close>, positive duration \<open>d\<close> and time \<open>t\<close> in \<open>[0, d]\<close>: in exact arithmetic the
  eased position is \<open>b\<close> plus a quadratic in \<open>t\<close> before the midpoint and \<open>b + c\<close> minus
  the same quadratic in \<open>d - t\<close> from the midpoint on, and the positions at \<open>t\<close> and
  at \<open>d - t\<close> add up to \<open>2 * b + c\<close>; the two positions the script computes in
  binary64 add up to \<open>2 * b + c\<close> within \<open>(\<bar>b\<bar> + \<bar>c\<bar>) / 2 ^ 48\<close>, provided no
  intermediate result leaves the normal range of binary64.
\<close>

theorem ease_symmetric_up_to_rounding:
  assumes "0 < d" "0 \<le> t" "t \<le> d"
    and "ease64 t b c d = Some x" "ease64 (d - t) b c d = Some y"
  shows "(t < d / 2 \<longrightarrow> ease t b c d = b + c / 2 * (t / (d / 2)) * (t / (d / 2))) \<and>
         (d / 2 \<le> t \<longrightarrow>
            ease t b c d = b + c - c / 2 * ((d - t) / (d / 2)) * ((d - t) / (d / 2))) \<and>
         ease t b c d + ease (d - t) b c d = 2 * b + c \<and>
         \<bar>x + y - (2 * b + c)\<bar> \<le> (\<bar>b\<bar> + \<bar>c\<bar>) / 2 ^ 48"
proof -
  have exact: "ease t b c d + ease (d - t) b c d = 2 * b + c"
    using assms(1) by (rule ease_mirror)
  have x: "\<bar>x - ease t b c d\<bar> \<le> (14 * \<bar>c\<bar> + \<bar>b\<bar>) / 9007199254740992"
    using assms(1-4) by (rule ease64_error)
  have y: "\<bar>y - ease (d - t) b c d\<bar> \<le> (14 * \<bar>c\<bar> + \<bar>b\<bar>) / 9007199254740992"
    using assms(1-3,5) by (intro ease64_error) auto
  have "\<bar>x + y - (2 * b + c)\<bar> \<le> (\<bar>b\<bar> + \<bar>c\<bar>) / 281474976710656"
    using x y exact by argo
  then have rounded: "\<bar>x + y - (2 * b + c)\<bar> \<le> (\<bar>b\<bar> + \<bar>c\<bar>) / 2 ^ 48" by simp
  show ?thesis
    using ease_accelerates [OF assms(1)] ease_decelerates [OF assms(1)] exact rounded
    by blast
qed

text \<open>The scroll above: the two computed positions add up to \<open>720 - 9 / 2 ^ 47\<close>.\<close>

theorem ease_symmetric_up_to_rounding_witness:
  "(0::real) < 1000 \<and> (0::real) \<le> 1 \<and> (1::real) \<le> 1000 \<and>
   ease64 1 40 640 1000 = Some (5629679678198215 / 140737488355328) \<and>
   ease64 (1000 - 1) 40 640 1000 = Some (5981331996102371 / 8796093022208) \<and>
   ease 1 40 640 1000 + ease (1000 - 1) 40 640 1000 = 2 * 40 + 640 \<and>
   \<bar>5629679678198215 / 140737488355328 + 5981331996102371 / 8796093022208 - (2 * 40 + 640)\<bar>
     \<le> (\<bar>40\<bar> + \<bar>640::real\<bar>) / 2 ^ 48"
  using ease_symmetric_up_to_rounding [of 1000 1 40 640
      "5629679678198215 / 140737488355328" "5981331996102371 / 8796093022208"]
    ease64_early ease64_late
  by simp

text \<open>
  The same two positions do not add up to \<open>2 * 40 + 640 = 720\<close> exactly, and neither
  does their binary64 sum, which is \<open>720 - 1 / 2 ^ 43\<close>.
\<close>

theorem ease_symmetric_counterexample:
  "ease64 1 40 640 1000 = Some (5629679678198215 / 140737488355328) \<and>
   ease64 999 40 640 1000 = Some (5981331996102371 / 8796093022208) \<and>
   5629679678198215 / 140737488355328 + 5981331996102371 / 8796093022208
     \<noteq> (2 * 40 + 640 :: real) \<and>
   fadd (5629679678198215 / 140737488355328) (5981331996102371 / 8796093022208)
     = Some (6333186975989759 / 8796093022208) \<and>
   6333186975989759 / 8796093022208 \<noteq> (2 * 40 + 640 :: real)"
  using ease64_early ease64_late sum_step by simp

section \<open>Properties of the click handler\<close>

lemmas click_defs =
  clickHandler_def querySelector_def preventDefault_def requestAnimFrame_def Let_def

text \<open>
  The handler at work on the sample page, scrolled to offset 40: a link to the section
  suppresses the navigation and schedules the animation towards offset 680; a link whose
  fragment is no valid selector ends the handler with the exception and changes nothing.
\<close>

lemma click_with_target:
  "clickHandler sample_document ''#guides'' (scrolled_to 40, \<lparr>defaultPrevented = False\<rparr>)
     = ((\<lparr>pageYOffset = 40, scrollTop = 40,
          frames = [\<lparr>startPosition = 40, distance = 640, duration = 1000, start = None\<rparr>]\<rparr>,
         \<lparr>defaultPrevented = True\<rparr>), Returned)"
  by (simp add: click_defs sample_document_def scrolled_to_def)

lemma click_with_invalid_selector:
  "clickHandler sample_document ''#2024'' (w, e) = ((w, e), Thrown SyntaxError)"
  by (simp add: click_defs sample_document_def)

text \<open>
  The first frame of that animation (at time 5000) records the start time, leaves the
  page at offset 40 and schedules itself again; the frame 1000 time units later puts the
  page at offset 680 and schedules nothing.
\<close>

lemma animation_first_frame:
  "animation 5000 \<lparr>startPosition = 40, distance = 640, duration = 1000, start = None\<rparr>
     \<lparr>pageYOffset = 40, scrollTop = 40, frames = []\<rparr>
   = \<lparr>pageYOffset = 40, scrollTop = 40,
      frames = [\<lparr>startPosition = 40, distance = 640, duration = 1000, start = Some 5000\<rparr>]\<rparr>"
  by (simp add: animation_def ease_def scrollTo_def requestAnimFrame_def Let_def)

lemma animation_last_frame:
  "animation 6000 \<lparr>startPosition = 40, distance = 640, duration = 1000, start = Some 5000\<rparr>
     \<lparr>pageYOffset = 600, scrollTop = 600, frames = []\<rparr>
   = \<lparr>pageYOffset = 680, scrollTop = 680, frames = []\<rparr>"
  by (simp add: animation_def ease_def scrollTo_def requestAnimFrame_def Let_def)

text \<open>
  C1, as the script has it: on a click on a link whose \<^verbatim>\<open>href\<close> is exactly
  \<^verbatim>\<open>#\<close>, the handler leaves the window as it is (the scroll position is unchanged
  and no animation frame is scheduled) and returns, but it does call
  \<^verbatim>\<open>preventDefault\<close>: the default navigation is suppressed.
\<close>

theorem click_on_empty_anchor:
  "clickHandler doc ''#'' (w, e) = ((w, e\<lparr>defaultPrevented := True\<rparr>), Returned)"
  by (simp add: click_defs)

text \<open>
  On the sample page, a click on such a link with an event whose default action is not
  yet prevented: the event comes back with the default action prevented.
\<close>

theorem click_on_empty_anchor_counterexample:
  "clickHandler sample_document ''#'' (scrolled_to 40, \<lparr>defaultPrevented = False\<rparr>)
     = ((scrolled_to 40, \<lparr>defaultPrevented = True\<rparr>), Returned)"
  by (simp add: click_defs)

text \<open>
  C7: on a click on a link whose \<^verbatim>\<open>href\<close> is not exactly \<^verbatim>\<open>#\<close> and for
  which \<^verbatim>\<open>querySelector\<close> finds no element of the page (it returns
  \<^verbatim>\<open>null\<close>, or it throws because the \<^verbatim>\<open>href\<close> is no valid selector), the
  handler leaves the window and the event as they were: the scroll position is
  unchanged, no animation frame is scheduled, and \<^verbatim>\<open>preventDefault\<close> is not
  called. It returns in the first case and ends with the exception in the second.
\<close>

theorem click_without_target:
  assumes "href \<noteq> ''#''" "\<forall>target. querySelector doc href \<noteq> Inr (Some target)"
  shows "clickHandler doc href (w, e) =
           ((w, e), case querySelector doc href of Inl exn \<Rightarrow> Thrown exn | Inr _ \<Rightarrow> Returned)"
  using assms by (simp add: clickHandler_def split: sum.splits option.splits)

text \<open>
  A link to a section the sample page does not have, and a link whose fragment is no
  valid selector.
\<close>

theorem click_without_target_witness:
  "''#missing'' \<noteq> ''#'' \<and>
   (\<forall>target. querySelector sample_document ''#missing'' \<noteq> Inr (Some target)) \<and>
   clickHandler sample_document ''#missing'' (scrolled_to 40, \<lparr>defaultPrevented = False\<rparr>)
     = ((scrolled_to 40, \<lparr>defaultPrevented = False\<rparr>), Returned) \<and>
   ''#2024'' \<noteq> ''#'' \<and>
   (\<forall>target. querySelector sample_document ''#2024'' \<noteq> Inr (Some target)) \<and>
   clickHandler sample_document ''#2024'' (scrolled_to 40, \<lparr>defaultPrevented = False\<rparr>)
     = ((scrolled_to 40, \<lparr>defaultPrevented = False\<rparr>), Thrown SyntaxError)"
  using click_without_target
    [of "''#missing''" sample_document "scrolled_to 40" "\<lparr>defaultPrevented = False\<rparr>"]
    click_without_target
    [of "''#2024''" sample_document "scrolled_to 40" "\<lparr>defaultPrevented = False\<rparr>"]
  by (simp add: querySelector_def sample_document_def)

section \<open>Properties of the header's scroll handler\<close>

lemmas header_step_defs =
  headerScrollHandler_def scrollThreshold_def deltaThreshold_def
  classList_add_def classList_remove_def header_hidden_def header_scrolled_def Let_def

text \<open>
  C6: for every call of the handler with a current offset \<open>s\<close> with \<open>0 \<le> s \<le> 100\<close>,
  whatever the header was before, neither \<^verbatim>\<open>header-hidden\<close> nor
  \<^verbatim>\<open>header-scrolled\<close> is on the header afterwards (its other classes stay), and
  \<^verbatim>\<open>lastScrollTop\<close> is \<open>s\<close>.
\<close>

theorem top_of_page_resets:
  assumes "0 \<le> scrollOffset w" "scrollOffset w \<le> 100"
  shows "\<not> header_hidden (headerScrollHandler w h) \<and>
         \<not> header_scrolled (headerScrollHandler w h) \<and>
         lastScrollTop (headerScrollHandler w h) = scrollOffset w \<and>
         set (classList (headerScrollHandler w h)) =
           set (classList h) - {''header-hidden'', ''header-scrolled''}"
  using assms by (auto simp: header_step_defs)

text \<open>A hidden header with a class of its own, last seen at offset 420, now at offset 60.\<close>

theorem top_of_page_resets_witness:
  "0 \<le> scrollOffset (scrolled_to 60) \<and> scrollOffset (scrolled_to 60) \<le> 100 \<and>
   headerScrollHandler (scrolled_to 60)
     \<lparr>classList = [''site-header'', ''header-hidden'', ''header-scrolled''],
      lastScrollTop = 420\<rparr>
   = \<lparr>classList = [''site-header''], lastScrollTop = 60\<rparr>"
  using top_of_page_resets [of "scrolled_to 60"
     "\<lparr>classList = [''site-header'', ''header-hidden'', ''header-scrolled''],
       lastScrollTop = 420\<rparr>"]
  by (simp add: header_step_defs scrolled_to_def scrollOffset_def)

text \<open>
  C2, as the script has it: for every call of the handler whose current offset \<open>s\<close> lies
  outside the top-of-page range \<open>0 \<le> s \<le> 100\<close> and differs from
  \<^verbatim>\<open>lastScrollTop\<close> by less than 5 in magnitude, the call changes neither
  \<^verbatim>\<open>lastScrollTop\<close> nor the header's classes. Within the range the top-of-page
  rule is tested first and applies whatever the delta is.
\<close>

theorem small_delta_ignored:
  assumes "\<bar>scrollOffset w - lastScrollTop h\<bar> < 5"
    and "scrollOffset w < 0 \<or> 100 < scrollOffset w"
  shows "headerScrollHandler w h = h"
  using assms by (auto simp: header_step_defs)

text \<open>A hidden header last seen at offset 200, now at offset 203.\<close>

theorem small_delta_ignored_witness:
  "\<bar>scrollOffset (scrolled_to 203) -
     lastScrollTop \<lparr>classList = [''header-hidden'', ''header-scrolled''],
                    lastScrollTop = 200\<rparr>\<bar> < 5 \<and>
   100 < scrollOffset (scrolled_to 203) \<and>
   headerScrollHandler (scrolled_to 203)
     \<lparr>classList = [''header-hidden'', ''header-scrolled''], lastScrollTop = 200\<rparr>
   = \<lparr>classList = [''header-hidden'', ''header-scrolled''], lastScrollTop = 200\<rparr>"
  using small_delta_ignored [of "scrolled_to 203"
     "\<lparr>classList = [''header-hidden'', ''header-scrolled''], lastScrollTop = 200\<rparr>"]
  by (simp add: scrolled_to_def scrollOffset_def)

text \<open>
  Scrolling from the initial header to offset 102 hides the header; offset 99 then
  differs from \<^verbatim>\<open>lastScrollTop\<close> by 3 only, and the call removes both classes
  and moves \<^verbatim>\<open>lastScrollTop\<close> to 99.
\<close>

theorem small_delta_at_top_counterexample:
  "headerScrollHandler (scrolled_to 102) initial_header
     = \<lparr>classList = [''header-hidden'', ''header-scrolled''], lastScrollTop = 102\<rparr> \<and>
   \<bar>scrollOffset (scrolled_to 99) -
     lastScrollTop \<lparr>classList = [''header-hidden'', ''header-scrolled''],
                    lastScrollTop = 102\<rparr>\<bar> < 5 \<and>
   headerScrollHandler (scrolled_to 99)
     \<lparr>classList = [''header-hidden'', ''header-scrolled''], lastScrollTop = 102\<rparr>
     = \<lparr>classList = [], lastScrollTop = 99\<rparr>"
  by (simp add: header_step_defs initial_header_def scrolled_to_def scrollOffset_def)

text \<open>
  C8: from the initial header (no classes, \<^verbatim>\<open>lastScrollTop = 0\<close>), the offsets
  0, 50, 120, 200 leave the header with no class, no class, both classes, both classes.
\<close>

theorem scenario_0_50_120_200:
  "scroll_trace (map scrolled_to [0, 50, 120, 200]) initial_header =
     [\<lparr>classList = [], lastScrollTop = 0\<rparr>,
      \<lparr>classList = [], lastScrollTop = 50\<rparr>,
      \<lparr>classList = [''header-hidden'', ''header-scrolled''], lastScrollTop = 120\<rparr>,
      \<lparr>classList = [''header-hidden'', ''header-scrolled''], lastScrollTop = 200\<rparr>]"
  by (simp add: header_step_defs initial_header_def scrolled_to_def scrollOffset_def)

text \<open>
  C9: from the initial header, offset 300 leaves the header with both classes, and
  offset 150 after it (a delta of -150) leaves it with \<^verbatim>\<open>header-scrolled\<close> only.
\<close>

theorem scenario_300_150:
  "scroll_trace (map scrolled_to [300, 150]) initial_header =
     [\<lparr>classList = [''header-hidden'', ''header-scrolled''], lastScrollTop = 300\<rparr>,
      \<lparr>classList = [''header-scrolled''], lastScrollTop = 150\<rparr>]"
  by (simp add: header_step_defs initial_header_def scrolled_to_def scrollOffset_def)

text \<open>One call keeps the invariant, from any header and for any window reading.\<close>

lemma headerScrollHandler_preserves:
  "(header_hidden h \<longrightarrow> header_scrolled h) \<Longrightarrow>
   header_hidden (headerScrollHandler w h) \<longrightarrow> header_scrolled (headerScrollHandler w h)"
  by (simp add: header_step_defs)

lemma scroll_trace_invariant:
  "(header_hidden h \<longrightarrow> header_scrolled h) \<Longrightarrow>
   \<forall>h' \<in> set (scroll_trace ws h). header_hidden h' \<longrightarrow> header_scrolled h'"
proof (induction ws arbitrary: h)
  case Nil
  then show ?case by simp
next
  case (Cons w ws)
  have step:
    "header_hidden (headerScrollHandler w h) \<longrightarrow> header_scrolled (headerScrollHandler w h)"
    using Cons.prems by (rule headerScrollHandler_preserves)
  from Cons.IH [OF step] step show ?case by simp
qed

text \<open>
  C10: starting from a header with neither class (whatever \<^verbatim>\<open>lastScrollTop\<close>
  is, so also for the initial 0), after every call of the handler, for any sequence of
  window readings, \<^verbatim>\<open>header-hidden\<close> is on the header only together with
  \<^verbatim>\<open>header-scrolled\<close>.
\<close>

theorem hidden_only_with_scrolled:
  assumes "\<not> header_hidden h0" "\<not> header_scrolled h0"
  shows "\<forall>h \<in> set (scroll_trace ws h0). header_hidden h \<longrightarrow> header_scrolled h"
  using assms by (intro scroll_trace_invariant) simp

text \<open>The initial header scrolled to offset 300 and back to 150: hidden after the first call.\<close>

theorem hidden_only_with_scrolled_witness:
  "\<not> header_hidden initial_header \<and> \<not> header_scrolled initial_header \<and>
   header_hidden (hd (scroll_trace [scrolled_to 300, scrolled_to 150] initial_header)) \<and>
   header_scrolled (hd (scroll_trace [scrolled_to 300, scrolled_to 150] initial_header))"
proof -
  have init: "\<not> header_hidden initial_header" "\<not> header_scrolled initial_header"
    by (simp_all add: initial_header_def header_hidden_def header_scrolled_def)
  have hid: "header_hidden (hd (scroll_trace [scrolled_to 300, scrolled_to 150] initial_header))"
    by (simp add: header_step_defs initial_header_def scrolled_to_def scrollOffset_def)
  have "hd (scroll_trace [scrolled_to 300, scrolled_to 150] initial_header)
        \<in> set (scroll_trace [scrolled_to 300, scrolled_to 150] initial_header)"
    by simp
  with hidden_only_with_scrolled [OF init, of "[scrolled_to 300, scrolled_to 150]"] hid
  have "header_scrolled (hd (scroll_trace [scrolled_to 300, scrolled_to 150] initial_header))"
    by blast
  with init hid show ?thesis by blast
qed

end
